theory Spec2Isabelle
  imports Main "HOL-Library.Word"
begin

unbundle bit_operations_syntax

section \<open>Package signature: digests and constant-time comparison\<close>

text \<open>
  Go strings are byte sequences, and so are Isabelle's: a \<open>char\<close> is one byte. The
  conversion \<open>[]byte(s)\<close> reads every character as an unsigned 8-bit value.
\<close>

type_synonym byte = "8 word"
type_synonym uint32 = "32 word"

definition bytes_of :: "string \<Rightarrow> byte list" where
  "bytes_of s = map of_char s"

subsection \<open>crypto/subtle\<close>

text \<open>
  \<open>signature.Verify\<close> is a call of the standard library's
  \<open>subtle.ConstantTimeCompare\<close>, written out here as the library has it:
  \<^verbatim>\<open>
  func ConstantTimeCompare(x, y []byte) int {
      if len(x) != len(y) { return 0 }
      var v byte
      for i := 0; i < len(x); i++ { v |= x[i] ^ y[i] }
      return ConstantTimeByteEq(v, 0)
  }
  func ConstantTimeByteEq(x, y uint8) int { return int((uint32(x^y) - 1) >> 31) }
  \<close>
  The loop is a recursion on the index \<open>i\<close> with the accumulator \<open>v\<close>.
\<close>

function ConstantTimeCompare_loop :: "byte list \<Rightarrow> byte list \<Rightarrow> nat \<Rightarrow> byte \<Rightarrow> byte" where
  "ConstantTimeCompare_loop x y i v =
     (if i < length x then ConstantTimeCompare_loop x y (i + 1) (v OR (x ! i XOR y ! i)) else v)"
  by pat_completeness auto
termination
  by (relation "measure (\<lambda>(x, y, i, v). length x - i)") auto

declare ConstantTimeCompare_loop.simps [simp del]

definition ConstantTimeByteEq :: "byte \<Rightarrow> byte \<Rightarrow> int" where
  "ConstantTimeByteEq x y = uint (drop_bit 31 ((ucast (x XOR y) :: uint32) - 1))"

definition ConstantTimeCompare :: "byte list \<Rightarrow> byte list \<Rightarrow> int" where
  "ConstantTimeCompare x y =
     (if length x \<noteq> length y then 0
      else ConstantTimeByteEq (ConstantTimeCompare_loop x y 0 0) 0)"





subsection \<open>signature.go\<close>

definition Verify :: "string \<Rightarrow> string \<Rightarrow> bool" where
  "Verify expected actual = (ConstantTimeCompare (bytes_of expected) (bytes_of actual) = 1)"



subsection \<open>crypto/md5 and encoding/hex\<close>

text \<open>
  \<open>md5.Sum\<close> is the MD5 message digest of RFC 1321: the message is padded with the
  byte \<open>0x80\<close>, zeros up to 56 modulo 64 and its length in bits as a little-endian
  64-bit value; every 64-byte block is read as sixteen little-endian 32-bit words and
  run through 64 steps; the four state words are written out little-endian, 16 bytes.
\<close>

definition md5_K :: "uint32 list" where
  "md5_K =
    [0xd76aa478, 0xe8c7b756, 0x242070db, 0xc1bdceee, 0xf57c0faf, 0x4787c62a, 0xa8304613, 0xfd469501,
     0x698098d8, 0x8b44f7af, 0xffff5bb1, 0x895cd7be, 0x6b901122, 0xfd987193, 0xa679438e, 0x49b40821,
     0xf61e2562, 0xc040b340, 0x265e5a51, 0xe9b6c7aa, 0xd62f105d, 0x02441453, 0xd8a1e681, 0xe7d3fbc8,
     0x21e1cde6, 0xc33707d6, 0xf4d50d87, 0x455a14ed, 0xa9e3e905, 0xfcefa3f8, 0x676f02d9, 0x8d2a4c8a,
     0xfffa3942, 0x8771f681, 0x6d9d6122, 0xfde5380c, 0xa4beea44, 0x4bdecfa9, 0xf6bb4b60, 0xbebfbc70,
     0x289b7ec6, 0xeaa127fa, 0xd4ef3085, 0x04881d05, 0xd9d4d039, 0xe6db99e5, 0x1fa27cf8, 0xc4ac5665,
     0xf4292244, 0x432aff97, 0xab9423a7, 0xfc93a039, 0x655b59c3, 0x8f0ccc92, 0xffeff47d, 0x85845dd1,
     0x6fa87e4f, 0xfe2ce6e0, 0xa3014314, 0x4e0811a1, 0xf7537e82, 0xbd3af235, 0x2ad7d2bb, 0xeb86d391]"

definition md5_S :: "nat list" where
  "md5_S =
    [7, 12, 17, 22, 7, 12, 17, 22, 7, 12, 17, 22, 7, 12, 17, 22,
     5, 9, 14, 20, 5, 9, 14, 20, 5, 9, 14, 20, 5, 9, 14, 20,
     4, 11, 16, 23, 4, 11, 16, 23, 4, 11, 16, 23, 4, 11, 16, 23,
     6, 10, 15, 21, 6, 10, 15, 21, 6, 10, 15, 21, 6, 10, 15, 21]"

definition rotl32 :: "uint32 \<Rightarrow> nat \<Rightarrow> uint32" where
  "rotl32 x n = push_bit n x OR drop_bit (32 - n) x"

definition le32 :: "byte list \<Rightarrow> uint32" where
  "le32 bs = ucast (bs ! 0) OR push_bit 8 (ucast (bs ! 1))
               OR push_bit 16 (ucast (bs ! 2)) OR push_bit 24 (ucast (bs ! 3))"

definition put_le32 :: "uint32 \<Rightarrow> byte list" where
  "put_le32 w = [ucast w, ucast (drop_bit 8 w), ucast (drop_bit 16 w), ucast (drop_bit 24 w)]"

definition put_le64 :: "64 word \<Rightarrow> byte list" where
  "put_le64 w = map (\<lambda>i. ucast (drop_bit (8 * i) w)) [0..<8]"

definition md5_pad :: "byte list \<Rightarrow> byte list" where
  "md5_pad m = m @ [0x80] @ replicate ((55 + 64 - length m mod 64) mod 64) 0
                 @ put_le64 (push_bit 3 (of_nat (length m)))"

type_synonym md5_state = "uint32 \<times> uint32 \<times> uint32 \<times> uint32"

definition md5_step :: "uint32 list \<Rightarrow> nat \<Rightarrow> md5_state \<Rightarrow> md5_state" where
  "md5_step X i s = (case s of (a, b, c, d) \<Rightarrow>
     let f = (if i < 16 then (b AND c) OR (NOT b AND d)
              else if i < 32 then (d AND b) OR (NOT d AND c)
              else if i < 48 then b XOR c XOR d
              else c XOR (b OR NOT d));
         g = (if i < 16 then i
              else if i < 32 then (5 * i + 1) mod 16
              else if i < 48 then (3 * i + 5) mod 16
              else (7 * i) mod 16)
     in (d, b + rotl32 (a + f + md5_K ! i + X ! g) (md5_S ! i), b, c))"

definition md5_block :: "md5_state \<Rightarrow> byte list \<Rightarrow> md5_state" where
  "md5_block s blk = (case s of (a0, b0, c0, d0) \<Rightarrow>
     let X = map (\<lambda>j. le32 (take 4 (drop (4 * j) blk))) [0..<16] in
     case foldl (\<lambda>st i. md5_step X i st) s [0..<64] of
       (a, b, c, d) \<Rightarrow> (a0 + a, b0 + b, c0 + c, d0 + d))"

fun md5_blocks :: "nat \<Rightarrow> md5_state \<Rightarrow> byte list \<Rightarrow> md5_state" where
  "md5_blocks 0 s p = s"
| "md5_blocks (Suc n) s p = md5_blocks n (md5_block s (take 64 p)) (drop 64 p)"

definition md5_Sum :: "byte list \<Rightarrow> byte list" where
  "md5_Sum m = (let p = md5_pad m in
     case md5_blocks (length p div 64) (0x67452301, 0xefcdab89, 0x98badcfe, 0x10325476) p of
       (a, b, c, d) \<Rightarrow> put_le32 a @ put_le32 b @ put_le32 c @ put_le32 d)"

text \<open>
  \<open>hex.EncodeToString\<close> writes two characters of \<open>hextable\<close> for every byte, the high
  nibble first.
\<close>

definition hextable :: string where
  "hextable = ''0123456789abcdef''"

fun hex_EncodeToString :: "byte list \<Rightarrow> string" where
  "hex_EncodeToString [] = []"
| "hex_EncodeToString (v # src) =
     hextable ! unat (drop_bit 4 v) # hextable ! unat (v AND 0x0f) # hex_EncodeToString src"

subsection \<open>Digest and GenerateWithDigest\<close>

text \<open>
  A \<open>hash.Hash\<close> is an object with state: \<open>Write\<close> feeds bytes to the accumulator and
  changes it, \<open>Sum\<close> appends the digest of what was written to its argument and leaves the
  accumulator as it is. The state of one accumulator is modelled by its behaviour
  (\<open>Write\<close> gives the state after the call). The accumulators of a program live in a
  heap, and a \<open>hash.Hash\<close> value is the address of one of them, or \<open>nil\<close>.

  A \<open>Digest\<close> is a Go function value \<open>func() hash.Hash\<close>, or \<open>nil\<close>. A call of it may
  read and change the heap: it may make a new accumulator, as \<open>md5.New\<close> does, return
  one that exists already, or return \<open>nil\<close>.
\<close>

codatatype hash_Hash = Hash (Write: "byte list \<Rightarrow> hash_Hash") (Sum: "byte list \<Rightarrow> byte list")

type_synonym heap = "hash_Hash list"

type_synonym Digest = "(heap \<Rightarrow> nat option \<times> heap) option"

text \<open>
  A method call on a \<open>nil\<close> \<open>hash.Hash\<close> is a run-time panic. An address outside the
  heap does not occur in Go, where a value returned refers to a live object; the model
  answers it as it answers \<open>nil\<close>.
\<close>

datatype panic = NilDereference

text \<open>
  \<open>GenerateWithDigest\<close> takes the heap and returns it with the signature: the call
  \<open>h.Write\<close> changes the accumulator that \<open>digest()\<close> returned, and nothing resets it.
\<close>

definition GenerateWithDigest :: "string \<Rightarrow> Digest \<Rightarrow> heap \<Rightarrow> (panic + string) \<times> heap" where
  "GenerateWithDigest data digest H =
     (case digest of
        None \<Rightarrow> (let hash = md5_Sum (bytes_of data) in (Inr (hex_EncodeToString hash), H))
      | Some d \<Rightarrow>
          (case d H of
             (None, H) \<Rightarrow> (Inl NilDereference, H)
           | (Some h, H) \<Rightarrow>
               if h < length H
               then (let H = H[h := Write (H ! h) (bytes_of data)]
                     in (Inr (hex_EncodeToString (Sum (H ! h) [])), H))
               else (Inl NilDereference, H)))"

definition Generate :: "string \<Rightarrow> heap \<Rightarrow> (panic + string) \<times> heap" where
  "Generate data H = GenerateWithDigest data None H"


subsection \<open>Digest functions\<close>

text \<open>
  A constructor in the way of \<open>md5.New\<close> and \<open>sha256.New\<close>: every call makes a new
  accumulator in the initial state \<open>h0\<close> and returns its address.
\<close>

definition new_Digest :: "hash_Hash \<Rightarrow> heap \<Rightarrow> nat option \<times> heap" where
  "new_Digest h0 H = (Some (length H), H @ [h0])"

text \<open>\<open>md5.New\<close>, the digest the package documentation names as the default.\<close>

primcorec md5_digest :: "byte list \<Rightarrow> hash_Hash" where
  "md5_digest written = Hash (\<lambda>p. md5_digest (written @ p)) (\<lambda>b. b @ md5_Sum written)"

definition md5_New :: "heap \<Rightarrow> nat option \<times> heap" where
  "md5_New = new_Digest (md5_digest [])"




section \<open>Package sanitize: the endpoint sanitizer\<close>

subsection \<open>strings.Split and strings.Join\<close>

text \<open>
  Both versions of \<open>Endpoint\<close> split the path at \<open>"/"\<close> and join the segments with
  \<open>"/"\<close>. \<open>strings.Split\<close> with a one-character separator returns the segments
  between the separators, empty ones included; on the empty string it returns one empty
  segment. \<open>strings.Join\<close> writes the separator between neighbours.
\<close>

fun strings_Split :: "string \<Rightarrow> char \<Rightarrow> string list" where
  "strings_Split [] sep = [[]]"
| "strings_Split (c # s) sep =
     (if c = sep then [] # strings_Split s sep
      else (case strings_Split s sep of [] \<Rightarrow> [[c]] | p # ps \<Rightarrow> (c # p) # ps))"

fun strings_Join :: "string list \<Rightarrow> string \<Rightarrow> string" where
  "strings_Join [] sep = []"
| "strings_Join [a] sep = a"
| "strings_Join (a # b # elems) sep = a @ sep @ strings_Join (b # elems) sep"

subsection \<open>Endpoint, by position (internal/sanitize/sanitize.go)\<close>

text \<open>
  Go evaluates \<open>&&\<close> from the left and stops at the first false operand, so that
  \<open>parts[1]\<close> to \<open>parts[4]\<close> are read only when there are five segments. In the
  conjunction below the first conjunct is false in every other case.
\<close>

definition Endpoint :: "string \<Rightarrow> string" where
  "Endpoint endpoint =
     (let parts = strings_Split endpoint CHR ''/'' in
      if length parts \<ge> 5 \<and> parts ! 1 = ''v2'' \<and> parts ! 2 = ''integrations''
         \<and> length (parts ! 4) > 0
      then (if parts ! 3 = ''operator'' \<or> parts ! 3 = ''operators''
            then strings_Join (parts[4 := ''[REDACTED]'']) ''/''
            else endpoint)
      else endpoint)"

subsection \<open>Endpoint, by scanning (the second copy of the package)\<close>

text \<open>
  The other file of package sanitize among the sources declares \<open>Endpoint\<close> too, as a
  loop over the segments; it is \<open>Endpoint_scan\<close> here. The loop returns from inside
  at the first segment \<open>operator\<close> or \<open>operators\<close> whose successor exists and is not
  empty.
\<close>

function Endpoint_scan_loop :: "string \<Rightarrow> string list \<Rightarrow> nat \<Rightarrow> string" where
  "Endpoint_scan_loop endpoint parts i =
     (if i < length parts
      then (if (parts ! i = ''operator'' \<or> parts ! i = ''operators'') \<and> i + 1 < length parts
            then (if length (parts ! (i + 1)) > 0
                  then strings_Join (parts[i + 1 := ''[REDACTED]'']) ''/''
                  else Endpoint_scan_loop endpoint parts (i + 1))
            else Endpoint_scan_loop endpoint parts (i + 1))
      else endpoint)"
  by pat_completeness auto
termination
  by (relation "measure (\<lambda>(endpoint, parts, i). length parts - i)") auto

declare Endpoint_scan_loop.simps [simp del]

definition Endpoint_scan :: "string \<Rightarrow> string" where
  "Endpoint_scan endpoint = Endpoint_scan_loop endpoint (strings_Split endpoint CHR ''/'') 0"

subsection \<open>Notions to compare the two\<close>

definition is_operator :: "string \<Rightarrow> bool" where
  "is_operator part = (part = ''operator'' \<or> part = ''operators'')"

text \<open>Segment \<open>i\<close> is an operator segment followed by a segment that is not empty.\<close>

definition redactable :: "string list \<Rightarrow> nat \<Rightarrow> bool" where
  "redactable parts i = (is_operator (parts ! i) \<and> i + 1 < length parts \<and> parts ! (i + 1) \<noteq> [])"

definition has_redactable :: "string list \<Rightarrow> bool" where
  "has_redactable parts = list_ex (redactable parts) [0..<length parts]"

text \<open>The pattern of the API's paths: \<open>v2/integrations/operator(s)/key\<close> in segments 1 to 4.\<close>

definition matches_v2 :: "string list \<Rightarrow> bool" where
  "matches_v2 parts = (5 \<le> length parts \<and> parts ! 1 = ''v2'' \<and> parts ! 2 = ''integrations''
       \<and> is_operator (parts ! 3) \<and> parts ! 4 \<noteq> [])"


section \<open>Package client: options and the callback IP whitelist\<close>

subsection \<open>Package net\<close>

text \<open>
  The whitelist code calls five functions of the standard library's package \<open>net\<close>. They
  are not part of the repository, and the operations below take them as the parameter
  \<open>N\<close>: what is proved of the operations holds for every such five functions. An
  \<open>IP\<close> is a byte slice and an \<open>IPNet\<close> a network number with its mask, as in Go.
  \<^item> \<open>ParseCIDR\<close> returns an address and a network, or an error (\<open>None\<close>);
  \<^item> \<open>ParseIP\<close> returns an address, or \<open>nil\<close> (\<open>None\<close>);
  \<^item> \<open>SplitHostPort\<close> returns the host and the port, or an error (\<open>None\<close>);
  \<^item> \<open>IP_Equal\<close> and \<open>IPNet_Contains\<close> are the methods \<open>IP.Equal\<close> and
    \<open>IPNet.Contains\<close>.
\<close>

type_synonym IP = "byte list"

record IPNet =
  IP :: IP
  Mask :: "byte list"

record net_pkg =
  ParseCIDR :: "string \<Rightarrow> (IP \<times> IPNet) option"
  ParseIP :: "string \<Rightarrow> IP option"
  SplitHostPort :: "string \<Rightarrow> (string \<times> string) option"
  IP_Equal :: "IP \<Rightarrow> IP \<Rightarrow> bool"
  IPNet_Contains :: "IPNet \<Rightarrow> IP \<Rightarrow> bool"

subsection \<open>The client and its constants\<close>

text \<open>
  The fields of \<open>Client\<close> that the whitelist code, the retry waits and the signature
  read or write. A \<open>time.Duration\<close> is a number of nanoseconds. The fields
  \<open>HTTPClient\<close>, \<open>Language\<close>, \<open>logger\<close>, \<open>qrOpts\<close> and \<open>qrCfg\<close> hold objects of
  other packages (\<open>net/http\<close>, \<open>i18n\<close>, \<open>logger\<close>, the QR code generator). Nothing
  below reads them, and the record leaves them out, together with the last two steps of
  \<open>New\<close>, which fill \<open>HTTPClient\<close> and \<open>qrCfg\<close> and write no other field.
\<close>

record Client =
  AuthKey :: string
  SecretKey :: string
  BaseURL :: string
  Timeout :: int
  Retries :: int
  RetryWaitMin :: int
  RetryWaitMax :: int
  CallbackIPWhitelist :: "string list"
  parsedIPNets :: "IPNet list"
  Debug :: bool
  parsedIPs :: "IP list"
  digest :: Digest

text \<open>
  Package constants is not among the sources. \<open>New\<close> takes its five defaults as the
  parameter \<open>K\<close>; \<open>documented_constants\<close> holds the values that the comments of
  option.go give for them (30 seconds, 3 retries, 500 and 2000 milliseconds).
\<close>

record constants =
  DefaultBaseURL :: string
  DefaultTimeout :: int
  DefaultRetries :: int
  DefaultRetryWaitMin :: int
  DefaultRetryWaitMax :: int

definition documented_constants :: constants where
  "documented_constants =
     \<lparr>DefaultBaseURL = ''https://api.thegspay.com'', DefaultTimeout = 30, DefaultRetries = 3,
      DefaultRetryWaitMin = 500, DefaultRetryWaitMax = 2000\<rparr>"

definition Millisecond :: int where
  "Millisecond = 1000000"

definition Second :: int where
  "Second = 1000 * Millisecond"

subsection \<open>parseIPWhitelist\<close>

text \<open>
  The loop over the configured strings: an entry that parses as a CIDR range is appended
  to \<open>parsedIPNets\<close> and the loop continues; otherwise an entry that parses as an
  address is appended to \<open>parsedIPs\<close>; otherwise nothing happens.
\<close>

fun parseIPWhitelist_loop :: "net_pkg \<Rightarrow> string list \<Rightarrow> Client \<Rightarrow> Client" where
  "parseIPWhitelist_loop N [] c = c"
| "parseIPWhitelist_loop N (ipStr # rest) c =
     (case ParseCIDR N ipStr of
        Some (_, ipNet) \<Rightarrow>
          parseIPWhitelist_loop N rest (c\<lparr>parsedIPNets := parsedIPNets c @ [ipNet]\<rparr>)
      | None \<Rightarrow>
          (case ParseIP N ipStr of
             Some ip \<Rightarrow> parseIPWhitelist_loop N rest (c\<lparr>parsedIPs := parsedIPs c @ [ip]\<rparr>)
           | None \<Rightarrow> parseIPWhitelist_loop N rest c))"

definition parseIPWhitelist :: "net_pkg \<Rightarrow> Client \<Rightarrow> Client" where
  "parseIPWhitelist N c =
     parseIPWhitelist_loop N (CallbackIPWhitelist c) (c\<lparr>parsedIPNets := [], parsedIPs := []\<rparr>)"

subsection \<open>Options and New\<close>

text \<open>
  An \<open>Option\<close> is a function on the client that one of the ten constructors of
  option.go returns. The datatype names the constructor and its arguments, and
  \<open>apply_Option\<close> is the body of the function returned. \<open>WithHTTPClient\<close>,
  \<open>WithLanguage\<close> and \<open>WithLogger\<close> assign a field that the record leaves out and
  nothing else: they leave the record as it is, and the types of their arguments are
  not looked into. \<open>WithDebug\<close> also replaces a no-op logger by the default one, in
  such a field. \<open>WithQRCodeOptions\<close> is declared in a file that is not among the
  sources.
\<close>

typedecl http_Client
typedecl Language
typedecl logger_Handler

definition strings_TrimRight :: "string \<Rightarrow> string \<Rightarrow> string" where
  "strings_TrimRight s cutset = rev (dropWhile (\<lambda>c. c \<in> set cutset) (rev s))"

datatype Option =
    WithBaseURL string
  | WithHTTPClient "http_Client option"
  | WithTimeout int
  | WithRetries int
  | WithDebug bool
  | WithRetryWait int int
  | WithCallbackIPWhitelist "string list"
  | WithLanguage Language
  | WithLogger "logger_Handler option"
  | WithDigest Digest

fun apply_Option :: "net_pkg \<Rightarrow> Option \<Rightarrow> Client \<Rightarrow> Client" where
  "apply_Option N (WithBaseURL baseURL) c = c\<lparr>BaseURL := strings_TrimRight baseURL ''/''\<rparr>"
| "apply_Option N (WithHTTPClient httpClient) c = c"
| "apply_Option N (WithTimeout timeout) c =
     (if timeout \<ge> 5 * Second then c\<lparr>Timeout := timeout\<rparr> else c)"
| "apply_Option N (WithRetries retries) c =
     (if retries \<ge> 0 then c\<lparr>Retries := retries\<rparr> else c)"
| "apply_Option N (WithDebug debug) c = c\<lparr>Debug := debug\<rparr>"
| "apply_Option N (WithRetryWait min_wait max_wait) c =
     c\<lparr>RetryWaitMin := min_wait, RetryWaitMax := max_wait\<rparr>"
| "apply_Option N (WithCallbackIPWhitelist ips) c =
     parseIPWhitelist N (c\<lparr>CallbackIPWhitelist := ips\<rparr>)"
| "apply_Option N (WithLanguage lang) c = c"
| "apply_Option N (WithLogger l) c = c"
| "apply_Option N (WithDigest d) c = c\<lparr>digest := d\<rparr>"

definition New :: "constants \<Rightarrow> net_pkg \<Rightarrow> string \<Rightarrow> string \<Rightarrow> Option list \<Rightarrow> Client" where
  "New K N authKey secretKey opts =
     fold (apply_Option N) opts
       \<lparr>AuthKey = authKey, SecretKey = secretKey, BaseURL = DefaultBaseURL K,
        Timeout = DefaultTimeout K * Second, Retries = DefaultRetries K,
        RetryWaitMin = DefaultRetryWaitMin K * Millisecond,
        RetryWaitMax = DefaultRetryWaitMax K * Millisecond,
        CallbackIPWhitelist = [], parsedIPNets = [], Debug = False, parsedIPs = [],
        digest = None\<rparr>"

subsection \<open>IsIPWhitelisted and VerifyCallbackIP\<close>

text \<open>The port is stripped where \<open>SplitHostPort\<close> succeeds; otherwise the string is the host.\<close>

definition strip_port :: "net_pkg \<Rightarrow> string \<Rightarrow> string" where
  "strip_port N ipStr = (case SplitHostPort N ipStr of Some (h, _) \<Rightarrow> h | None \<Rightarrow> ipStr)"

text \<open>The two loops of \<open>IsIPWhitelisted\<close>; each returns true from inside at the first match.\<close>

fun check_parsedIPs :: "net_pkg \<Rightarrow> IP list \<Rightarrow> IP \<Rightarrow> bool" where
  "check_parsedIPs N [] ip = False"
| "check_parsedIPs N (whitelistedIP # rest) ip =
     (if IP_Equal N whitelistedIP ip then True else check_parsedIPs N rest ip)"

fun check_parsedIPNets :: "net_pkg \<Rightarrow> IPNet list \<Rightarrow> IP \<Rightarrow> bool" where
  "check_parsedIPNets N [] ip = False"
| "check_parsedIPNets N (ipNet # rest) ip =
     (if IPNet_Contains N ipNet ip then True else check_parsedIPNets N rest ip)"

definition IsIPWhitelisted :: "net_pkg \<Rightarrow> Client \<Rightarrow> string \<Rightarrow> bool" where
  "IsIPWhitelisted N c ipStr =
     (if length (CallbackIPWhitelist c) = 0 then True
      else (let host = strip_port N ipStr in
            case ParseIP N host of
              None \<Rightarrow> False
            | Some ip \<Rightarrow>
                if check_parsedIPs N (parsedIPs c) ip then True
                else if check_parsedIPNets N (parsedIPNets c) ip then True
                else False))"

text \<open>
  The sentinel errors of package errors, as its source lists them.
\<close>

datatype sentinel =
    ErrInvalidTransactionID | ErrInvalidAmount | ErrInvalidBankCode | ErrInvalidSignature
  | ErrMissingCallbackField | ErrEmptyResponse | ErrInvalidJSON | ErrRequestFailed
  | ErrIPNotWhitelisted | ErrInvalidIPAddress | ErrRateLimited | ErrEmptyQRContent

text \<open>
  Modelled from the spec: \<open>errors.New\<close>, which \<open>c.Error\<close> calls with the client's
  language, is not among the sources. The specification asks that every failure be a
  stable error value on whose kind the caller can branch, and the package documentation
  says that \<open>errors.Is\<close> identifies the localized error with its sentinel. The model
  keeps the sentinel of an error; \<open>None\<close> is \<open>nil\<close>.
\<close>

definition Client_Error :: "Client \<Rightarrow> sentinel \<Rightarrow> sentinel option" where
  "Client_Error c e = Some e"

definition VerifyCallbackIP :: "net_pkg \<Rightarrow> Client \<Rightarrow> string \<Rightarrow> sentinel option" where
  "VerifyCallbackIP N c ipStr =
     (if length (CallbackIPWhitelist c) = 0 then None
      else (let host = strip_port N ipStr in
            if ParseIP N host = None then Client_Error c ErrInvalidIPAddress
            else if \<not> IsIPWhitelisted N c ipStr then Client_Error c ErrIPNotWhitelisted
            else None))"


subsection \<open>Go's package net on IPv4 text\<close>

text \<open>
  To run the operations on the addresses of the specification, the five functions are
  written out after the standard library for dotted-decimal IPv4 text. Text that Go
  would parse as IPv6 (the first of \<open>.\<close>, \<open>:\<close> and \<open>%\<close> in it is a colon) is
  outside this fragment: the two parsers below answer \<open>None\<close> there, which is not what
  Go does. \<open>SplitHostPort\<close>, \<open>Equal\<close> and \<open>Contains\<close> are written out in full.
\<close>

fun IndexByte :: "string \<Rightarrow> char \<Rightarrow> int" where
  "IndexByte [] c = -1"
| "IndexByte (x # s) c =
     (if x = c then 0 else (let r = IndexByte s c in if r < 0 then -1 else r + 1))"

definition LastIndexByte :: "string \<Rightarrow> char \<Rightarrow> int" where
  "LastIndexByte s c =
     (let r = IndexByte (rev s) c in if r < 0 then -1 else int (length s) - 1 - r)"

text \<open>
  \<open>net.SplitHostPort\<close>: the port starts after the last colon; a host in brackets ends
  at the first \<open>]\<close>, which must stand just before that colon; a host without brackets
  has no colon; no other bracket may occur.
\<close>

definition go_SplitHostPort :: "string \<Rightarrow> (string \<times> string) option" where
  "go_SplitHostPort hostport =
     (let i = LastIndexByte hostport CHR '':'' in
      if i < 0 then None
      else
        (case (if hostport ! 0 = CHR ''[''
               then (let end = IndexByte hostport CHR '']'' in
                     if end < 0 then None
                     else if end + 1 = int (length hostport) then None
                     else if end + 1 = i
                     then Some (take (nat end - 1) (drop 1 hostport), 1, nat end + 1)
                     else None)
               else (let host = take (nat i) hostport in
                     if IndexByte host CHR '':'' \<ge> 0 then None else Some (host, 0, 0))) of
           None \<Rightarrow> None
         | Some (host, j, k) \<Rightarrow>
             if IndexByte (drop j hostport) CHR ''['' \<ge> 0 then None
             else if IndexByte (drop k hostport) CHR '']'' \<ge> 0 then None
             else Some (host, drop (nat i + 1) hostport)))"

definition is_digit :: "char \<Rightarrow> bool" where
  "is_digit c = ((of_char CHR ''0'' :: nat) \<le> of_char c \<and> (of_char c :: nat) \<le> of_char CHR ''9'')"

definition digit_val :: "char \<Rightarrow> nat" where
  "digit_val c = of_char c - of_char CHR ''0''"

text \<open>
  \<open>netip.parseIPv4\<close>: four decimal fields of value at most 255, separated by single
  dots, no field empty and none with a leading zero. \<open>prev\<close> is the character before
  the current one (\<open>None\<close> at index 0); the current character is the last one when the
  rest is empty.
\<close>

fun parseIPv4_loop ::
  "string \<Rightarrow> char option \<Rightarrow> nat \<Rightarrow> nat \<Rightarrow> nat \<Rightarrow> byte list \<Rightarrow> byte list option" where
  "parseIPv4_loop [] prev val pos digLen octets =
     (if pos < 3 then None else Some (octets[3 := of_nat val]))"
| "parseIPv4_loop (ch # s) prev val pos digLen octets =
     (if is_digit ch then
        (if digLen = 1 \<and> val = 0 then None
         else (let val = val * 10 + digit_val ch in
               if val > 255 then None
               else parseIPv4_loop s (Some ch) val pos (digLen + 1) octets))
      else if ch = CHR ''.'' then
        (if prev = None \<or> s = [] \<or> prev = Some CHR ''.'' then None
         else if pos = 3 then None
         else parseIPv4_loop s (Some ch) 0 (pos + 1) 0 (octets[pos := of_nat val]))
      else None)"

definition parseIPv4 :: "string \<Rightarrow> byte list option" where
  "parseIPv4 s = parseIPv4_loop s None 0 0 0 [0, 0, 0, 0]"

text \<open>\<open>netip.ParseAddr\<close>: the first of \<open>.\<close>, \<open>:\<close> and \<open>%\<close> decides how the text is read.\<close>

fun ParseAddr_scan :: "string \<Rightarrow> string \<Rightarrow> byte list option" where
  "ParseAddr_scan s [] = None"
| "ParseAddr_scan s (ch # rest) =
     (if ch = CHR ''.'' then parseIPv4 s
      else if ch = CHR '':'' then None
      else if ch = CHR ''%'' then None
      else ParseAddr_scan s rest)"

definition ParseAddr :: "string \<Rightarrow> byte list option" where
  "ParseAddr s = ParseAddr_scan s s"

definition v4InV6Prefix :: "byte list" where
  "v4InV6Prefix = [0, 0, 0, 0, 0, 0, 0, 0, 0, 0, 0xff, 0xff]"

text \<open>\<open>net.ParseIP\<close> returns the address in its 16-byte form.\<close>

definition go_ParseIP :: "string \<Rightarrow> IP option" where
  "go_ParseIP s = (case ParseAddr s of None \<Rightarrow> None | Some octets \<Rightarrow> Some (v4InV6Prefix @ octets))"

text \<open>\<open>dtoi\<close> reads a decimal number at the start of the string: the number, the characters read, success.\<close>

fun dtoi_loop :: "string \<Rightarrow> nat \<Rightarrow> nat \<Rightarrow> nat \<times> nat \<times> bool" where
  "dtoi_loop [] n i = (if i = 0 then (0, 0, False) else (n, i, True))"
| "dtoi_loop (ch # s) n i =
     (if is_digit ch then
        (let n = n * 10 + digit_val ch in
         if n \<ge> 0xFFFFFF then (0xFFFFFF, i, False) else dtoi_loop s n (i + 1))
      else (if i = 0 then (0, 0, False) else (n, i, True)))"

definition dtoi :: "string \<Rightarrow> nat \<times> nat \<times> bool" where
  "dtoi s = dtoi_loop s 0 0"

fun CIDRMask_loop :: "nat \<Rightarrow> nat \<Rightarrow> byte list" where
  "CIDRMask_loop 0 n = []"
| "CIDRMask_loop (Suc l) n =
     (if n \<ge> 8 then 0xff # CIDRMask_loop l (n - 8) else NOT (drop_bit n 0xff) # CIDRMask_loop l 0)"

definition CIDRMask :: "nat \<Rightarrow> nat \<Rightarrow> byte list" where
  "CIDRMask ones bits =
     (if bits \<noteq> 32 \<and> bits \<noteq> 128 then [] else if ones > bits then []
      else CIDRMask_loop (bits div 8) ones)"

definition IP_Mask :: "IP \<Rightarrow> byte list \<Rightarrow> IP" where
  "IP_Mask ip ipmask =
     (let ipmask = (if length ipmask = 16 \<and> length ip = 4 \<and> list_all (\<lambda>b. b = 0xff) (take 12 ipmask)
                  then drop 12 ipmask else ipmask);
          ip = (if length ipmask = 4 \<and> length ip = 16 \<and> take 12 ip = v4InV6Prefix
                then drop 12 ip else ip)
      in if length ip \<noteq> length ipmask then [] else map (\<lambda>(a, b). a AND b) (zip ip ipmask))"

fun strings_Cut :: "string \<Rightarrow> char \<Rightarrow> (string \<times> string) option" where
  "strings_Cut [] sep = None"
| "strings_Cut (c # s) sep =
     (if c = sep then Some ([], s)
      else (case strings_Cut s sep of None \<Rightarrow> None | Some (before, after) \<Rightarrow> Some (c # before, after)))"

definition go_ParseCIDR :: "string \<Rightarrow> (IP \<times> IPNet) option" where
  "go_ParseCIDR s =
     (case strings_Cut s CHR ''/'' of
        None \<Rightarrow> None
      | Some (addr, masktext) \<Rightarrow>
          (case ParseAddr addr of
             None \<Rightarrow> None
           | Some octets \<Rightarrow>
               (case dtoi masktext of
                  (n, i, ok) \<Rightarrow>
                    if \<not> ok \<or> i \<noteq> length masktext \<or> n > 32 then None
                    else (let m = CIDRMask n 32;
                              addr16 = v4InV6Prefix @ octets
                          in Some (addr16, \<lparr>IP = IP_Mask addr16 m, Mask = m\<rparr>)))))"

definition To4 :: "IP \<Rightarrow> IP option" where
  "To4 ip =
     (if length ip = 4 then Some ip
      else if length ip = 16 \<and> list_all (\<lambda>b. b = 0) (take 10 ip) \<and> ip ! 10 = 0xff \<and> ip ! 11 = 0xff
      then Some (take 4 (drop 12 ip))
      else None)"

definition go_IP_Equal :: "IP \<Rightarrow> IP \<Rightarrow> bool" where
  "go_IP_Equal ip x =
     (if length ip = length x then ip = x
      else if length ip = 4 \<and> length x = 16 then take 12 x = v4InV6Prefix \<and> ip = drop 12 x
      else if length ip = 16 \<and> length x = 4 then take 12 ip = v4InV6Prefix \<and> drop 12 ip = x
      else False)"

definition networkNumberAndMask :: "IPNet \<Rightarrow> IP \<times> byte list" where
  "networkNumberAndMask n =
     (case (case To4 (IP n) of
              Some ip \<Rightarrow> Some ip
            | None \<Rightarrow> if length (IP n) \<noteq> 16 then None else Some (IP n)) of
        None \<Rightarrow> ([], [])
      | Some ip \<Rightarrow>
          (let m = Mask n in
           if length m = 4 then (if length ip \<noteq> 4 then ([], []) else (ip, m))
           else if length m = 16 then (if length ip = 4 then (ip, drop 12 m) else (ip, m))
           else ([], [])))"

definition go_IPNet_Contains :: "IPNet \<Rightarrow> IP \<Rightarrow> bool" where
  "go_IPNet_Contains n ip =
     (case networkNumberAndMask n of
        (nn, m) \<Rightarrow>
          (let ip = (case To4 ip of Some x \<Rightarrow> x | None \<Rightarrow> ip) in
           if length ip \<noteq> length nn then False
           else list_all (\<lambda>i. nn ! i AND m ! i = ip ! i AND m ! i) [0..<length ip]))"

definition go_net :: net_pkg where
  "go_net = \<lparr>ParseCIDR = go_ParseCIDR, ParseIP = go_ParseIP, SplitHostPort = go_SplitHostPort,
             IP_Equal = go_IP_Equal, IPNet_Contains = go_IPNet_Contains\<rparr>"


subsection \<open>The whitelist as the specification describes it\<close>

text \<open>
  The specification speaks of the parseable entries of the configured list: an entry is
  tried as a CIDR range first and as a literal address only if that fails. \<open>nets_of\<close>
  and \<open>literals_of\<close> are the entries of the one and of the other kind, in the order of
  the list. They are compared below with what \<open>parseIPWhitelist\<close> computes.
\<close>

definition nets_of :: "net_pkg \<Rightarrow> string list \<Rightarrow> IPNet list" where
  "nets_of N ips = List.map_filter (\<lambda>s. map_option snd (ParseCIDR N s)) ips"

definition literals_of :: "net_pkg \<Rightarrow> string list \<Rightarrow> IP list" where
  "literals_of N ips =
     List.map_filter (\<lambda>s. if ParseCIDR N s = None then ParseIP N s else None) ips"

text \<open>The parsed fields of a client are those of its configured list.\<close>

definition whitelist_parsed :: "net_pkg \<Rightarrow> Client \<Rightarrow> bool" where
  "whitelist_parsed N c =
     (parsedIPNets c = nets_of N (CallbackIPWhitelist c) \<and>
      parsedIPs c = literals_of N (CallbackIPWhitelist c))"

text \<open>
  An address equals a configured literal address, or lies inside a configured range.
\<close>

definition matches_literal :: "net_pkg \<Rightarrow> string list \<Rightarrow> IP \<Rightarrow> bool" where
  "matches_literal N ips a =
     (\<exists>s \<in> set ips. ParseCIDR N s = None \<and> (\<exists>w. ParseIP N s = Some w \<and> IP_Equal N w a))"

definition matches_range :: "net_pkg \<Rightarrow> string list \<Rightarrow> IP \<Rightarrow> bool" where
  "matches_range N ips a =
     (\<exists>s \<in> set ips. \<exists>r. ParseCIDR N s = Some r \<and> IPNet_Contains N (snd r) a)"

section \<open>Properties of the signature package\<close>

subsection \<open>Bytes\<close>

lemma unat_of_char: "unat (of_char c :: byte) = of_char c"
proof -
  have "(of_char c :: byte) = of_nat (of_char c)"
    by (simp add: of_nat_of_char)
  then have "unat (of_char c :: byte) = (of_char c :: nat) mod 256"
    by (simp add: unat_of_nat)
  then show ?thesis
    by simp
qed

lemma of_char_byte_inj: "(of_char c :: byte) = of_char d \<longleftrightarrow> c = d"
proof
  assume "(of_char c :: byte) = of_char d"
  then have "unat (of_char c :: byte) = unat (of_char d :: byte)"
    by simp
  then have "(of_char c :: nat) = of_char d"
    by (simp only: unat_of_char)
  then show "c = d"
    by simp
qed simp

lemma bytes_of_inj: "bytes_of s = bytes_of t \<longleftrightarrow> s = t"
  unfolding bytes_of_def by (simp add: inj_on_def of_char_byte_inj)

lemma length_bytes_of [simp]: "length (bytes_of s) = length s"
  by (simp add: bytes_of_def)

lemma byte_or_zero: "(a OR b) = (0::byte) \<longleftrightarrow> a = 0 \<and> b = 0"
  by (simp add: or_eq_0_iff)

lemma byte_xor_zero: "(a XOR b) = (0::byte) \<longleftrightarrow> a = b"
  by (metis bit.xor_left_self xor.right_neutral)

lemma unat_ucast_byte: "unat (ucast (v::byte) :: uint32) = unat v"
proof -
  have "unat v < 2 ^ 8"
    using unsigned_less [of v] by simp
  then show ?thesis
    by (simp add: unsigned_ucast_eq take_bit_nat_eq_self)
qed

subsection \<open>ConstantTimeByteEq and the comparison loop\<close>

lemma ConstantTimeByteEq_zero: "ConstantTimeByteEq 0 0 = 1"
  by (simp add: ConstantTimeByteEq_def)

lemma ConstantTimeByteEq_nonzero:
  assumes "v \<noteq> 0"
  shows "ConstantTimeByteEq v 0 = 0"
proof -
  let ?w = "ucast v :: uint32"
  have a: "unat ?w = unat v"
    by (rule unat_ucast_byte)
  have b: "unat v < 256"
    using unsigned_less [of v] by simp
  have c: "0 < unat v"
    using assms by (simp add: unat_gt_0)
  have w0: "?w \<noteq> 0"
    using a c by (metis unat_0 less_numeral_extra(3))
  have "unat (?w - 1) = unat ?w - 1"
    using w0 by (metis unat_minus_one)
  then have d: "unat (?w - 1) < 2 ^ 31"
    using a b by simp
  have "unat (drop_bit 31 (?w - 1)) = unat (?w - 1) div 2 ^ 31"
    by (simp only: unat_drop_bit_eq) (simp add: drop_bit_eq_div)
  then have "unat (drop_bit 31 (?w - 1)) = 0"
    using d by simp
  then have "drop_bit 31 (?w - 1) = 0"
    by (simp only: unat_eq_0)
  then show ?thesis
    by (simp add: ConstantTimeByteEq_def)
qed

lemma ConstantTimeByteEq_iff: "ConstantTimeByteEq v 0 = 1 \<longleftrightarrow> v = 0"
  using ConstantTimeByteEq_zero ConstantTimeByteEq_nonzero [of v] by (cases "v = 0") auto

lemma range_split:
  "i < n \<Longrightarrow>
   (\<forall>j. i \<le> j \<and> j < n \<longrightarrow> P j) \<longleftrightarrow> P i \<and> (\<forall>j. i + 1 \<le> j \<and> j < (n::nat) \<longrightarrow> P j)"
  by (metis Suc_eq_plus1 leI le_antisym less_or_eq_imp_le not_less_eq_eq)

lemma ConstantTimeCompare_loop_zero:
  "ConstantTimeCompare_loop x y i v = 0
   \<longleftrightarrow> v = 0 \<and> (\<forall>j. i \<le> j \<and> j < length x \<longrightarrow> x ! j = y ! j)"
proof (induction x y i v rule: ConstantTimeCompare_loop.induct)
  case (1 x y i v)
  show ?case
  proof (cases "i < length x")
    case True
    have "ConstantTimeCompare_loop x y i v
          = ConstantTimeCompare_loop x y (i + 1) (v OR (x ! i XOR y ! i))"
      using True by (subst ConstantTimeCompare_loop.simps) simp
    moreover have "ConstantTimeCompare_loop x y (i + 1) (v OR (x ! i XOR y ! i)) = 0
          \<longleftrightarrow> (v OR (x ! i XOR y ! i)) = 0 \<and> (\<forall>j. i + 1 \<le> j \<and> j < length x \<longrightarrow> x ! j = y ! j)"
      using 1 True by simp
    moreover have "(v OR (x ! i XOR y ! i)) = 0 \<longleftrightarrow> v = 0 \<and> x ! i = y ! i"
      by (simp add: byte_or_zero byte_xor_zero)
    ultimately show ?thesis
      using range_split [OF True, of "\<lambda>j. x ! j = y ! j"] by auto
  next
    case False
    then show ?thesis
      by (subst ConstantTimeCompare_loop.simps) auto
  qed
qed

lemma ConstantTimeCompare_eq: "ConstantTimeCompare x y = 1 \<longleftrightarrow> x = y"
proof (cases "length x = length y")
  case True
  then show ?thesis
    by (auto simp: ConstantTimeCompare_def ConstantTimeByteEq_iff ConstantTimeCompare_loop_zero
        list_eq_iff_nth_eq)
next
  case False
  then show ?thesis
    by (auto simp: ConstantTimeCompare_def)
qed

text \<open>
  C1. \<open>Verify expected actual\<close> is true if and only if the two strings are equal byte
  for byte. It is a total function into the booleans, so every mismatch, operands of
  different lengths included, is the value false and never an error; two empty
  signatures compare equal.
\<close>

theorem Verify_iff_equal:
  "(Verify expected actual \<longleftrightarrow> expected = actual) \<and> Verify [] [] \<and>
   Verify expected actual = (if length expected \<noteq> length actual then False else expected = actual)"
  by (auto simp: Verify_def ConstantTimeCompare_eq bytes_of_inj)


subsection \<open>The default digest\<close>

lemma length_put_le32 [simp]: "length (put_le32 w) = 4"
  by (simp add: put_le32_def)

lemma length_md5_Sum: "length (md5_Sum m) = 16"
  by (simp add: md5_Sum_def Let_def split: prod.splits)

lemma length_hex_EncodeToString: "length (hex_EncodeToString src) = 2 * length src"
  by (induction src) auto

lemma unat_high_nibble: "unat (drop_bit 4 (v::byte)) < 16"
proof -
  have "unat v < 256"
    using unsigned_less [of v] by simp
  moreover have "unat (drop_bit 4 v) = unat v div 16"
    by (simp only: unat_drop_bit_eq) (simp add: drop_bit_eq_div)
  ultimately show ?thesis
    by simp
qed

lemma unat_low_nibble: "unat ((v::byte) AND 0x0f) < 16"
proof -
  have "unat (v AND 0x0f) \<le> unat (0x0f :: byte)"
    by (rule word_and_le1 [THEN word_le_nat_alt [THEN iffD1]])
  then show ?thesis
    by simp
qed

lemma hextable_nth: "n < 16 \<Longrightarrow> hextable ! n \<in> set hextable"
  by (rule nth_mem) (simp add: hextable_def)

lemma set_hex_EncodeToString: "set (hex_EncodeToString src) \<subseteq> set hextable"
  by (induction src) (auto intro: hextable_nth unat_high_nibble unat_low_nibble)

text \<open>The empty message, and the digests that the tests of the package expect.\<close>

lemma md5_empty:
  "hex_EncodeToString (md5_Sum (bytes_of [])) = ''d41d8cd98f00b204e9800998ecf8427e''"
  by code_simp

text \<open>A message of two blocks, from the test suite of RFC 1321.\<close>

lemma md5_two_blocks:
  "hex_EncodeToString (md5_Sum (bytes_of
     ''12345678901234567890123456789012345678901234567890123456789012345678901234567890''))
   = ''57edf4a22be3c955ac49da2e2107b67a''"
  by code_simp

lemma md5_hello:
  "hex_EncodeToString (md5_Sum (bytes_of ''hello'')) = ''5d41402abc4b2a76b9719d911017c592''"
  by code_simp

lemma md5_test_data:
  "hex_EncodeToString (md5_Sum (bytes_of ''test data'')) = ''eb733a00c0c9d336e65691a37ab54293''"
  by code_simp

lemma Generate_hello: "Generate ''hello'' H = (Inr ''5d41402abc4b2a76b9719d911017c592'', H)"
  by (simp add: Generate_def GenerateWithDigest_def md5_hello)

lemma Generate_test_data: "Generate ''test data'' H = (Inr ''eb733a00c0c9d336e65691a37ab54293'', H)"
  by (simp add: Generate_def GenerateWithDigest_def md5_test_data)

text \<open>
  C3. With the digest unset, \<open>GenerateWithDigest m\<close> returns, on every heap and without
  touching it, the MD5 digest of the bytes of \<open>m\<close> (16 bytes, 128 bits) in hexadecimal:
  32 characters, each one of \<open>0123456789abcdef\<close>. The empty message is an input like
  any other and gives the MD5 digest of the empty byte sequence.
\<close>

theorem GenerateWithDigest_nil_md5:
  "GenerateWithDigest m None H = (Inr (hex_EncodeToString (md5_Sum (bytes_of m))), H) \<and>
   length (md5_Sum (bytes_of m)) = 16 \<and>
   (\<exists>sig. fst (GenerateWithDigest m None H) = Inr sig \<and> length sig = 32 \<and>
      set sig \<subseteq> set ''0123456789abcdef'') \<and>
   GenerateWithDigest [] None H = (Inr ''d41d8cd98f00b204e9800998ecf8427e'', H)"
  using set_hex_EncodeToString [of "md5_Sum (bytes_of m)"] md5_empty
  by (simp add: GenerateWithDigest_def length_md5_Sum length_hex_EncodeToString hextable_def)

subsection \<open>Two evaluations of GenerateWithDigest\<close>

lemma GenerateWithDigest_nil:
  "GenerateWithDigest m None H = (Inr (hex_EncodeToString (md5_Sum (bytes_of m))), H)"
  by (simp add: GenerateWithDigest_def)

lemma GenerateWithDigest_new:
  "GenerateWithDigest m (Some (new_Digest h0)) H =
     (Inr (hex_EncodeToString (Sum (Write h0 (bytes_of m)) [])), H @ [Write h0 (bytes_of m)])"
  by (simp add: GenerateWithDigest_def new_Digest_def nth_append)


text \<open>The accumulator of \<open>md5.New\<close> yields what the \<open>nil\<close> branch computes with \<open>md5.Sum\<close>.\<close>

lemma GenerateWithDigest_md5_New:
  "fst (GenerateWithDigest m (Some md5_New) H) = fst (GenerateWithDigest m None H)"
  by (simp add: GenerateWithDigest_new GenerateWithDigest_nil md5_New_def)





subsection \<open>What a comparison lets an observer see\<close>








section \<open>Properties of the endpoint sanitizer\<close>

lemma strings_Split_not_Nil [simp]: "strings_Split s sep \<noteq> []"
  by (induction s) (auto split: list.splits)

lemma strings_Join_Cons_Cons: "strings_Join ((x # p) # ps) sep = x # strings_Join (p # ps) sep"
  by (cases ps) auto

lemma strings_Join_Nil_Cons: "ps \<noteq> [] \<Longrightarrow> strings_Join ([] # ps) sep = sep @ strings_Join ps sep"
  by (cases ps) auto

text \<open>Joining what was split gives the path back: an untouched path is returned as it was.\<close>

lemma strings_Join_Split: "strings_Join (strings_Split s c) [c] = s"
proof (induction s)
  case Nil
  show ?case by simp
next
  case (Cons x s)
  show ?case
  proof (cases "x = c")
    case True
    then show ?thesis
      using Cons by (simp add: strings_Join_Nil_Cons)
  next
    case False
    obtain p ps where "strings_Split s c = p # ps"
      by (cases "strings_Split s c") auto
    then show ?thesis
      using False Cons by (simp add: strings_Join_Cons_Cons)
  qed
qed

text \<open>The tests of the packages: both versions on the API's paths, and where they part.\<close>

lemma Endpoint_operators:
  "Endpoint ''/v2/integrations/operators/secret123/idr/payment''
   = ''/v2/integrations/operators/[REDACTED]/idr/payment''"
  by (simp add: Endpoint_def)

lemma Endpoint_scan_operators:
  "Endpoint_scan ''/v2/integrations/operators/secret123/idr/payment''
   = ''/v2/integrations/operators/[REDACTED]/idr/payment''"
  by (simp add: Endpoint_scan_def Endpoint_scan_loop.simps)

lemma Endpoint_scan_simple_path:
  "Endpoint_scan ''operators/secret123/payment'' = ''operators/[REDACTED]/payment''"
  by (simp add: Endpoint_scan_def Endpoint_scan_loop.simps)

lemma Endpoint_scan_loop_skip:
  "i \<le> k \<Longrightarrow> k \<le> length parts \<Longrightarrow> (\<forall>j. i \<le> j \<and> j < k \<longrightarrow> \<not> redactable parts j)
   \<Longrightarrow> Endpoint_scan_loop e parts i = Endpoint_scan_loop e parts k"
proof (induction "k - i" arbitrary: i)
  case 0
  then show ?case by simp
next
  case (Suc n)
  then have lt: "i < k" and nr: "\<not> redactable parts i"
    by auto
  have "Endpoint_scan_loop e parts i = Endpoint_scan_loop e parts (i + 1)"
    using lt nr Suc.prems(2)
    by (subst Endpoint_scan_loop.simps) (auto simp: redactable_def is_operator_def)
  also have "\<dots> = Endpoint_scan_loop e parts k"
    using Suc by (intro Suc.hyps(1)) auto
  finally show ?case .
qed

lemma Endpoint_matches:
  "matches_v2 (strings_Split e CHR ''/'') \<Longrightarrow>
   Endpoint e = strings_Join ((strings_Split e CHR ''/'')[4 := ''[REDACTED]'']) ''/''"
  by (auto simp: Endpoint_def matches_v2_def is_operator_def Let_def)

lemma Endpoint_no_match:
  "\<not> matches_v2 (strings_Split e CHR ''/'') \<Longrightarrow> Endpoint e = e"
  by (auto simp: Endpoint_def matches_v2_def is_operator_def Let_def)

lemma Endpoint_scan_matches:
  assumes m: "matches_v2 (strings_Split e CHR ''/'')"
    and z: "\<not> is_operator (strings_Split e CHR ''/'' ! 0)"
  shows "Endpoint_scan e = strings_Join ((strings_Split e CHR ''/'')[4 := ''[REDACTED]'']) ''/''"
proof -
  let ?parts = "strings_Split e CHR ''/''"
  have "\<not> redactable ?parts j" if "j < 3" for j
  proof -
    from that consider "j = 0" | "j = 1" | "j = 2"
      by linarith
    then show ?thesis
      using m z by cases (auto simp: redactable_def matches_v2_def is_operator_def)
  qed
  then have "Endpoint_scan_loop e ?parts 0 = Endpoint_scan_loop e ?parts 3"
    using m by (intro Endpoint_scan_loop_skip) (auto simp: matches_v2_def)
  also have "\<dots> = strings_Join (?parts[4 := ''[REDACTED]'']) ''/''"
    using m by (subst Endpoint_scan_loop.simps) (auto simp: matches_v2_def is_operator_def)
  finally show ?thesis
    by (simp add: Endpoint_scan_def)
qed

lemma has_redactable_iff: "has_redactable parts \<longleftrightarrow> (\<exists>i. redactable parts i)"
  by (auto simp: has_redactable_def list_ex_iff redactable_def)

lemma Endpoint_scan_none:
  assumes "\<not> has_redactable (strings_Split e CHR ''/'')"
  shows "Endpoint_scan e = e"
proof -
  let ?parts = "strings_Split e CHR ''/''"
  have "Endpoint_scan_loop e ?parts 0 = Endpoint_scan_loop e ?parts (length ?parts)"
    using assms by (intro Endpoint_scan_loop_skip) (auto simp: has_redactable_iff)
  also have "\<dots> = e"
    by (subst Endpoint_scan_loop.simps) simp
  finally show ?thesis
    by (simp add: Endpoint_scan_def)
qed

lemma matches_v2_redactable: "matches_v2 parts \<Longrightarrow> has_redactable parts"
  unfolding has_redactable_iff by (rule exI [of _ 3]) (auto simp: matches_v2_def redactable_def)

text \<open>
  C10, as the two functions are written, fails: the version by position leaves a path
  alone unless \<open>v2\<close>, \<open>integrations\<close> and \<open>operator(s)\<close> stand in segments 1 to 3,
  while the scanning version redacts after an operator segment wherever it stands.
\<close>

theorem Endpoint_versions_differ:
  "Endpoint ''/api/operators/secret123'' = ''/api/operators/secret123'' \<and>
   Endpoint_scan ''/api/operators/secret123'' = ''/api/operators/[REDACTED]'' \<and>
   Endpoint ''/api/operators/secret123'' \<noteq> Endpoint_scan ''/api/operators/secret123''"
  by (simp add: Endpoint_def Endpoint_scan_def Endpoint_scan_loop.simps)

text \<open>
  C10, amended. The two versions return the same output on every path that has the
  API's pattern (segments 1 and 2 are \<open>v2\<close> and \<open>integrations\<close>, segment 3 is
  \<open>operator\<close> or \<open>operators\<close>, segment 4 is not empty) and whose segment 0 is not an
  operator segment; every path that starts with a slash and has the pattern is such a
  path. Both return the path unchanged when no operator segment is followed by a segment
  that is not empty.
\<close>

theorem Endpoint_versions_agree:
  "(matches_v2 (strings_Split e CHR ''/'') \<and> \<not> is_operator (strings_Split e CHR ''/'' ! 0)
      \<longrightarrow> Endpoint_scan e = Endpoint e) \<and>
   (e \<noteq> [] \<and> hd e = CHR ''/'' \<and> matches_v2 (strings_Split e CHR ''/'')
      \<longrightarrow> Endpoint_scan e = Endpoint e) \<and>
   (\<not> has_redactable (strings_Split e CHR ''/'') \<longrightarrow> Endpoint_scan e = e \<and> Endpoint e = e)"
proof (intro conjI impI)
  assume "matches_v2 (strings_Split e CHR ''/'') \<and> \<not> is_operator (strings_Split e CHR ''/'' ! 0)"
  then show "Endpoint_scan e = Endpoint e"
    by (simp add: Endpoint_scan_matches Endpoint_matches)
next
  assume a: "e \<noteq> [] \<and> hd e = CHR ''/'' \<and> matches_v2 (strings_Split e CHR ''/'')"
  then obtain s where e: "e = CHR ''/'' # s"
    by (cases e) auto
  have z: "\<not> is_operator (strings_Split e CHR ''/'' ! 0)"
    by (simp add: e is_operator_def)
  from a have m: "matches_v2 (strings_Split e CHR ''/'')"
    by simp
  show "Endpoint_scan e = Endpoint e"
    unfolding Endpoint_scan_matches [OF m z] Endpoint_matches [OF m] ..
next
  assume a: "\<not> has_redactable (strings_Split e CHR ''/'')"
  then show "Endpoint_scan e = e"
    by (rule Endpoint_scan_none)
  from a have "\<not> matches_v2 (strings_Split e CHR ''/'')"
    using matches_v2_redactable by blast
  then show "Endpoint e = e"
    by (rule Endpoint_no_match)
qed

theorem Endpoint_versions_agree_witness:
  "Endpoint_scan ''/v2/integrations/operator/secret123/get/balance''
     = Endpoint ''/v2/integrations/operator/secret123/get/balance'' \<and>
   Endpoint ''/v2/integrations/operator/secret123/get/balance''
     = ''/v2/integrations/operator/[REDACTED]/get/balance'' \<and>
   Endpoint_scan ''/v1/other/endpoint'' = ''/v1/other/endpoint'' \<and>
   Endpoint ''/v1/other/endpoint'' = ''/v1/other/endpoint''"
proof -
  let ?e = "''/v2/integrations/operator/secret123/get/balance''"
  have m: "matches_v2 (strings_Split ?e CHR ''/'')"
    by (simp add: matches_v2_def is_operator_def)
  have z: "\<not> is_operator (strings_Split ?e CHR ''/'' ! 0)"
    by (simp add: is_operator_def)
  have n: "\<not> has_redactable (strings_Split ''/v1/other/endpoint'' CHR ''/'')"
    by (simp add: has_redactable_def redactable_def is_operator_def upt_rec)
  have "Endpoint_scan ?e = Endpoint ?e"
    using Endpoint_versions_agree [of ?e] m z by blast
  moreover have "Endpoint ?e = ''/v2/integrations/operator/[REDACTED]/get/balance''"
    by (simp add: Endpoint_def)
  moreover have "Endpoint_scan ''/v1/other/endpoint'' = ''/v1/other/endpoint''
      \<and> Endpoint ''/v1/other/endpoint'' = ''/v1/other/endpoint''"
    using Endpoint_versions_agree [of "''/v1/other/endpoint''"] n by blast
  ultimately show ?thesis
    by blast
qed


section \<open>Properties of the whitelist and of the options\<close>

subsection \<open>parseIPWhitelist\<close>

lemma parseIPWhitelist_loop_eq:
  "parseIPWhitelist_loop N ips c =
     c\<lparr>parsedIPNets := parsedIPNets c @ nets_of N ips, parsedIPs := parsedIPs c @ literals_of N ips\<rparr>"
proof (induction ips arbitrary: c)
  case Nil
  show ?case by (simp add: nets_of_def literals_of_def)
next
  case (Cons s ips)
  show ?case
  proof (cases "ParseCIDR N s")
    case None
    then show ?thesis
      by (cases "ParseIP N s") (simp_all add: Cons nets_of_def literals_of_def)
  next
    case (Some r)
    then show ?thesis
      by (cases r) (simp add: Cons nets_of_def literals_of_def)
  qed
qed

lemma parseIPWhitelist_eq:
  "parseIPWhitelist N c =
     c\<lparr>parsedIPNets := nets_of N (CallbackIPWhitelist c),
       parsedIPs := literals_of N (CallbackIPWhitelist c)\<rparr>"
  by (simp add: parseIPWhitelist_def parseIPWhitelist_loop_eq)

lemma set_nets_of:
  "set (nets_of N ips) = {n. \<exists>s \<in> set ips. \<exists>a. ParseCIDR N s = Some (a, n)}"
proof (induction ips)
  case Nil
  show ?case by (simp add: nets_of_def)
next
  case (Cons s ips)
  have "nets_of N (s # ips) =
      (case ParseCIDR N s of None \<Rightarrow> nets_of N ips | Some r \<Rightarrow> snd r # nets_of N ips)"
    by (simp add: nets_of_def split: option.splits)
  then show ?case
    using Cons by (cases "ParseCIDR N s") auto
qed

lemma set_literals_of:
  "set (literals_of N ips) = {ip. \<exists>s \<in> set ips. ParseCIDR N s = None \<and> ParseIP N s = Some ip}"
proof (induction ips)
  case Nil
  show ?case by (simp add: literals_of_def)
next
  case (Cons s ips)
  have "literals_of N (s # ips) =
      (case ParseCIDR N s of
         None \<Rightarrow> (case ParseIP N s of None \<Rightarrow> literals_of N ips | Some ip \<Rightarrow> ip # literals_of N ips)
       | Some r \<Rightarrow> literals_of N ips)"
    by (simp add: literals_of_def split: option.splits)
  then show ?case
    using Cons by (cases "ParseCIDR N s"; cases "ParseIP N s") auto
qed

text \<open>
  C7. \<open>parseIPWhitelist\<close> is a total function with no error result: whatever the
  entries are, it returns the client with the ranges of the entries that parse as CIDR
  and the addresses of the entries that do not parse as CIDR and parse as an address.
  Entries that parse as neither are in neither field, and the configured list is left
  as it was.
\<close>

theorem parseIPWhitelist_total:
  "parseIPWhitelist N c =
     c\<lparr>parsedIPNets := nets_of N (CallbackIPWhitelist c),
       parsedIPs := literals_of N (CallbackIPWhitelist c)\<rparr> \<and>
   set (parsedIPNets (parseIPWhitelist N c))
     = {n. \<exists>s \<in> set (CallbackIPWhitelist c). \<exists>a. ParseCIDR N s = Some (a, n)} \<and>
   set (parsedIPs (parseIPWhitelist N c))
     = {ip. \<exists>s \<in> set (CallbackIPWhitelist c). ParseCIDR N s = None \<and> ParseIP N s = Some ip} \<and>
   CallbackIPWhitelist (parseIPWhitelist N c) = CallbackIPWhitelist c"
  by (simp add: parseIPWhitelist_eq set_nets_of set_literals_of)

subsection \<open>Clients made by New\<close>

lemma fold_apply_Option_invariant:
  assumes "P c0" and "\<And>opt c. opt \<in> set opts \<Longrightarrow> P c \<Longrightarrow> P (apply_Option N opt c)"
  shows "P (fold (apply_Option N) opts c0)"
  using assms by (induction opts arbitrary: c0) auto

lemma apply_Option_whitelist_parsed:
  "whitelist_parsed N c \<Longrightarrow> whitelist_parsed N (apply_Option N opt c)"
  by (cases opt) (auto simp: whitelist_parsed_def parseIPWhitelist_eq)

lemma New_whitelist_parsed: "whitelist_parsed N (New K N authKey secretKey opts)"
  unfolding New_def
proof (rule fold_apply_Option_invariant)
  show "whitelist_parsed N
     \<lparr>AuthKey = authKey, SecretKey = secretKey, BaseURL = DefaultBaseURL K,
        Timeout = DefaultTimeout K * Second, Retries = DefaultRetries K,
        RetryWaitMin = DefaultRetryWaitMin K * Millisecond,
        RetryWaitMax = DefaultRetryWaitMax K * Millisecond,
        CallbackIPWhitelist = [], parsedIPNets = [], Debug = False, parsedIPs = [],
        digest = None\<rparr>"
    by (simp add: whitelist_parsed_def nets_of_def literals_of_def)
qed (rule apply_Option_whitelist_parsed)

lemma check_parsedIPs_iff: "check_parsedIPs N ws ip \<longleftrightarrow> (\<exists>w \<in> set ws. IP_Equal N w ip)"
  by (induction ws) auto

lemma check_parsedIPNets_iff: "check_parsedIPNets N ns ip \<longleftrightarrow> (\<exists>n \<in> set ns. IPNet_Contains N n ip)"
  by (induction ns) auto

lemma IsIPWhitelisted_parsed:
  "IsIPWhitelisted N c ipStr \<longleftrightarrow>
     CallbackIPWhitelist c = [] \<or>
     (\<exists>a. ParseIP N (strip_port N ipStr) = Some a \<and>
        ((\<exists>w \<in> set (parsedIPs c). IP_Equal N w a) \<or> (\<exists>n \<in> set (parsedIPNets c). IPNet_Contains N n a)))"
  by (auto simp: IsIPWhitelisted_def check_parsedIPs_iff check_parsedIPNets_iff Let_def
      split: option.splits)

lemma whitelist_parsed_matches:
  assumes "whitelist_parsed N c"
  shows "(\<exists>w \<in> set (parsedIPs c). IP_Equal N w a) \<longleftrightarrow> matches_literal N (CallbackIPWhitelist c) a"
    and "(\<exists>n \<in> set (parsedIPNets c). IPNet_Contains N n a) \<longleftrightarrow> matches_range N (CallbackIPWhitelist c) a"
  using assms
  by (auto simp: whitelist_parsed_def set_nets_of set_literals_of matches_literal_def matches_range_def)

lemma IsIPWhitelisted_New:
  "IsIPWhitelisted N (New K N authKey secretKey opts) ipStr \<longleftrightarrow>
     CallbackIPWhitelist (New K N authKey secretKey opts) = [] \<or>
     (\<exists>a. ParseIP N (strip_port N ipStr) = Some a \<and>
        (matches_literal N (CallbackIPWhitelist (New K N authKey secretKey opts)) a \<or>
         matches_range N (CallbackIPWhitelist (New K N authKey secretKey opts)) a))"
  unfolding IsIPWhitelisted_parsed
  using whitelist_parsed_matches [OF New_whitelist_parsed [of N K authKey secretKey opts]]
  by simp

subsection \<open>The functions of package net on the addresses of the specification\<close>

lemma CIDRMask_loop_numeral:
  "CIDRMask_loop (numeral k) n =
     (if n \<ge> 8 then 0xff # CIDRMask_loop (pred_numeral k) (n - 8)
      else NOT (drop_bit n 0xff) # CIDRMask_loop (pred_numeral k) 0)"
  by (simp add: numeral_eq_Suc)

lemma go_SplitHostPort_port: "go_SplitHostPort ''10.1.2.3:9999'' = Some (''10.1.2.3'', ''9999'')"
  by (simp add: go_SplitHostPort_def LastIndexByte_def)

lemma go_SplitHostPort_10: "go_SplitHostPort ''10.1.2.3'' = None"
  by (simp add: go_SplitHostPort_def LastIndexByte_def)

lemma go_SplitHostPort_11: "go_SplitHostPort ''11.1.2.3'' = None"
  by (simp add: go_SplitHostPort_def LastIndexByte_def)

lemma go_SplitHostPort_text: "go_SplitHostPort ''not-an-address'' = None"
  by (simp add: go_SplitHostPort_def LastIndexByte_def)

lemma go_ParseIP_10:
  "go_ParseIP ''10.1.2.3'' = Some [0, 0, 0, 0, 0, 0, 0, 0, 0, 0, 255, 255, 10, 1, 2, 3]"
  by (simp add: go_ParseIP_def ParseAddr_def parseIPv4_def is_digit_def digit_val_def
      v4InV6Prefix_def)

lemma go_ParseIP_11:
  "go_ParseIP ''11.1.2.3'' = Some [0, 0, 0, 0, 0, 0, 0, 0, 0, 0, 255, 255, 11, 1, 2, 3]"
  by (simp add: go_ParseIP_def ParseAddr_def parseIPv4_def is_digit_def digit_val_def
      v4InV6Prefix_def)

lemma go_ParseIP_text: "go_ParseIP ''not-an-address'' = None"
  by (simp add: go_ParseIP_def ParseAddr_def)

lemma go_ParseCIDR_text: "go_ParseCIDR ''not-an-address'' = None"
  by (simp add: go_ParseCIDR_def)

lemma go_ParseCIDR_10_8:
  "go_ParseCIDR ''10.0.0.0/8'' =
     Some ([0, 0, 0, 0, 0, 0, 0, 0, 0, 0, 255, 255, 10, 0, 0, 0],
           \<lparr>IP = [10, 0, 0, 0], Mask = [255, 0, 0, 0]\<rparr>)"
proof -
  have cut: "strings_Cut ''10.0.0.0/8'' CHR ''/'' = Some (''10.0.0.0'', ''8'')"
    by simp
  have addr: "ParseAddr ''10.0.0.0'' = Some [10, 0, 0, 0]"
    by (simp add: ParseAddr_def parseIPv4_def is_digit_def digit_val_def)
  have d: "dtoi ''8'' = (8, 1, True)"
    by (simp add: dtoi_def is_digit_def digit_val_def)
  have m: "CIDRMask 8 32 = [255, 0, 0, 0]"
    by (simp add: CIDRMask_def CIDRMask_loop_numeral)
  have k: "IP_Mask (v4InV6Prefix @ [10, 0, 0, 0]) [255, 0, 0, 0] = [10, 0, 0, 0]"
    by (simp add: IP_Mask_def v4InV6Prefix_def)
  show ?thesis
    by (simp add: go_ParseCIDR_def cut addr d m k) (simp add: v4InV6Prefix_def)
qed

lemma go_Contains_10:
  "go_IPNet_Contains \<lparr>IP = [10, 0, 0, 0], Mask = [255, 0, 0, 0]\<rparr>
     [0, 0, 0, 0, 0, 0, 0, 0, 0, 0, 255, 255, 10, 1, 2, 3]"
  by (simp add: go_IPNet_Contains_def networkNumberAndMask_def To4_def upt_rec)

lemma go_Contains_11:
  "\<not> go_IPNet_Contains \<lparr>IP = [10, 0, 0, 0], Mask = [255, 0, 0, 0]\<rparr>
     [0, 0, 0, 0, 0, 0, 0, 0, 0, 0, 255, 255, 11, 1, 2, 3]"
  by (simp add: go_IPNet_Contains_def networkNumberAndMask_def To4_def upt_rec)

lemmas go_net_examples = go_SplitHostPort_port go_SplitHostPort_10 go_SplitHostPort_11
  go_SplitHostPort_text go_ParseIP_10 go_ParseIP_11 go_ParseIP_text go_ParseCIDR_text
  go_ParseCIDR_10_8 go_Contains_10 go_Contains_11

lemmas client_defs = New_def parseIPWhitelist_def IsIPWhitelisted_def VerifyCallbackIP_def
  Client_Error_def strip_port_def go_net_def

lemma IsIPWhitelisted_10_8:
  "IsIPWhitelisted go_net (New K go_net a s [WithCallbackIPWhitelist [''10.0.0.0/8'']]) ''10.1.2.3''"
  "\<not> IsIPWhitelisted go_net (New K go_net a s [WithCallbackIPWhitelist [''10.0.0.0/8'']]) ''11.1.2.3''"
  "IsIPWhitelisted go_net (New K go_net a s [WithCallbackIPWhitelist [''10.0.0.0/8'']]) ''10.1.2.3:9999''"
  "\<not> IsIPWhitelisted go_net (New K go_net a s [WithCallbackIPWhitelist [''10.0.0.0/8'']]) ''not-an-address''"
  by (simp_all add: client_defs go_net_examples)

lemma CallbackIPWhitelist_New_Nil: "CallbackIPWhitelist (New K N a s []) = []"
  by (simp add: New_def)

text \<open>
  C5. For a client made by \<open>New\<close>, whatever the options: \<open>IsIPWhitelisted\<close> is true for
  every candidate when the configured list is empty; otherwise it strips the port, and
  is true if and only if the host parses as an address that equals a configured literal
  address or lies inside a configured CIDR range. So a candidate that does not parse is
  denied by a list that is not empty. With Go's functions on IPv4 text and the list
  \<open>["10.0.0.0/8"]\<close>: \<open>10.1.2.3\<close> is allowed, \<open>11.1.2.3\<close> is denied,
  \<open>10.1.2.3:9999\<close> is allowed, its port stripped.
\<close>

theorem IsIPWhitelisted_spec:
  "(IsIPWhitelisted N (New K N authKey secretKey opts) ipStr \<longleftrightarrow>
      CallbackIPWhitelist (New K N authKey secretKey opts) = [] \<or>
      (\<exists>ip. ParseIP N (strip_port N ipStr) = Some ip \<and>
         (matches_literal N (CallbackIPWhitelist (New K N authKey secretKey opts)) ip \<or>
          matches_range N (CallbackIPWhitelist (New K N authKey secretKey opts)) ip))) \<and>
   IsIPWhitelisted N (New K N authKey secretKey []) ipStr \<and>
   IsIPWhitelisted go_net
     (New K go_net authKey secretKey [WithCallbackIPWhitelist [''10.0.0.0/8'']]) ''10.1.2.3'' \<and>
   \<not> IsIPWhitelisted go_net
     (New K go_net authKey secretKey [WithCallbackIPWhitelist [''10.0.0.0/8'']]) ''11.1.2.3'' \<and>
   IsIPWhitelisted go_net
     (New K go_net authKey secretKey [WithCallbackIPWhitelist [''10.0.0.0/8'']]) ''10.1.2.3:9999'' \<and>
   \<not> IsIPWhitelisted go_net
     (New K go_net authKey secretKey [WithCallbackIPWhitelist [''10.0.0.0/8'']]) ''not-an-address'' \<and>
   strip_port go_net ''10.1.2.3:9999'' = ''10.1.2.3''"
proof -
  have "IsIPWhitelisted N (New K N authKey secretKey []) ipStr"
    by (simp add: IsIPWhitelisted_def New_def)
  moreover have "strip_port go_net ''10.1.2.3:9999'' = ''10.1.2.3''"
    by (simp add: strip_port_def go_net_def go_SplitHostPort_port)
  ultimately show ?thesis
    using IsIPWhitelisted_New [of N K authKey secretKey opts ipStr]
      IsIPWhitelisted_10_8 [of K authKey secretKey]
    by blast
qed


subsection \<open>VerifyCallbackIP\<close>

lemma VerifyCallbackIP_None_iff:
  "VerifyCallbackIP N c ipStr = None \<longleftrightarrow> CallbackIPWhitelist c = [] \<or> IsIPWhitelisted N c ipStr"
  by (auto simp: VerifyCallbackIP_def IsIPWhitelisted_def Client_Error_def Let_def
      split: option.splits)

lemma VerifyCallbackIP_invalid:
  "CallbackIPWhitelist c \<noteq> [] \<Longrightarrow> ParseIP N (strip_port N ipStr) = None
   \<Longrightarrow> VerifyCallbackIP N c ipStr = Some ErrInvalidIPAddress"
  by (simp add: VerifyCallbackIP_def Client_Error_def)

lemma VerifyCallbackIP_valid:
  "CallbackIPWhitelist c \<noteq> [] \<Longrightarrow> ParseIP N (strip_port N ipStr) = Some ip
   \<Longrightarrow> VerifyCallbackIP N c ipStr = (if IsIPWhitelisted N c ipStr then None else Some ErrIPNotWhitelisted)"
  by (simp add: VerifyCallbackIP_def Client_Error_def)

text \<open>
  C6. For a client made by \<open>New\<close> with a configured list that is not empty: a candidate
  whose host does not parse as an address gives \<open>ErrInvalidIPAddress\<close>, and an address
  that matches no entry of the list gives \<open>ErrIPNotWhitelisted\<close>. The result is \<open>nil\<close>
  exactly when the list is empty or the address is whitelisted. There is no other result,
  and the two errors are different sentinels.
\<close>

theorem VerifyCallbackIP_errors:
  "(CallbackIPWhitelist (New K N authKey secretKey opts) \<noteq> [] \<and>
    ParseIP N (strip_port N ipStr) = None
      \<longrightarrow> VerifyCallbackIP N (New K N authKey secretKey opts) ipStr = Some ErrInvalidIPAddress) \<and>
   (CallbackIPWhitelist (New K N authKey secretKey opts) \<noteq> [] \<and>
    ParseIP N (strip_port N ipStr) = Some ip \<and>
    \<not> matches_literal N (CallbackIPWhitelist (New K N authKey secretKey opts)) ip \<and>
    \<not> matches_range N (CallbackIPWhitelist (New K N authKey secretKey opts)) ip
      \<longrightarrow> VerifyCallbackIP N (New K N authKey secretKey opts) ipStr = Some ErrIPNotWhitelisted) \<and>
   (VerifyCallbackIP N (New K N authKey secretKey opts) ipStr = None \<longleftrightarrow>
      CallbackIPWhitelist (New K N authKey secretKey opts) = [] \<or>
      IsIPWhitelisted N (New K N authKey secretKey opts) ipStr) \<and>
   (VerifyCallbackIP N (New K N authKey secretKey opts) ipStr = None \<or>
    VerifyCallbackIP N (New K N authKey secretKey opts) ipStr = Some ErrInvalidIPAddress \<or>
    VerifyCallbackIP N (New K N authKey secretKey opts) ipStr = Some ErrIPNotWhitelisted) \<and>
   ErrInvalidIPAddress \<noteq> ErrIPNotWhitelisted"
proof -
  let ?c = "New K N authKey secretKey opts"
  have a: "CallbackIPWhitelist ?c \<noteq> [] \<and> ParseIP N (strip_port N ipStr) = None
      \<longrightarrow> VerifyCallbackIP N ?c ipStr = Some ErrInvalidIPAddress"
    by (simp add: VerifyCallbackIP_invalid)
  have b: "CallbackIPWhitelist ?c \<noteq> [] \<and> ParseIP N (strip_port N ipStr) = Some ip \<and>
      \<not> matches_literal N (CallbackIPWhitelist ?c) ip \<and>
      \<not> matches_range N (CallbackIPWhitelist ?c) ip
      \<longrightarrow> VerifyCallbackIP N ?c ipStr = Some ErrIPNotWhitelisted"
    using IsIPWhitelisted_New [of N K authKey secretKey opts ipStr]
    by (auto simp: VerifyCallbackIP_valid)
  have c: "VerifyCallbackIP N ?c ipStr = None \<or>
      VerifyCallbackIP N ?c ipStr = Some ErrInvalidIPAddress \<or>
      VerifyCallbackIP N ?c ipStr = Some ErrIPNotWhitelisted"
    by (simp add: VerifyCallbackIP_def Client_Error_def Let_def)
  show ?thesis
    using a b c VerifyCallbackIP_None_iff [of N ?c ipStr] by simp
qed

lemma matches_10_8:
  "\<not> matches_literal go_net [''10.0.0.0/8''] ip"
  "matches_range go_net [''10.0.0.0/8''] ip
     \<longleftrightarrow> go_IPNet_Contains \<lparr>IP = [10, 0, 0, 0], Mask = [255, 0, 0, 0]\<rparr> ip"
  by (simp_all add: matches_literal_def matches_range_def go_net_def go_ParseCIDR_10_8)

lemma CallbackIPWhitelist_New_single:
  "CallbackIPWhitelist (New K N a s [WithCallbackIPWhitelist ips]) = ips"
  by (simp add: New_def parseIPWhitelist_eq)

theorem VerifyCallbackIP_errors_witness:
  "VerifyCallbackIP go_net
     (New documented_constants go_net ''auth'' ''secret'' [WithCallbackIPWhitelist [''10.0.0.0/8'']])
     ''not-an-address'' = Some ErrInvalidIPAddress \<and>
   VerifyCallbackIP go_net
     (New documented_constants go_net ''auth'' ''secret'' [WithCallbackIPWhitelist [''10.0.0.0/8'']])
     ''11.1.2.3'' = Some ErrIPNotWhitelisted \<and>
   VerifyCallbackIP go_net
     (New documented_constants go_net ''auth'' ''secret'' [WithCallbackIPWhitelist [''10.0.0.0/8'']])
     ''10.1.2.3:9999'' = None \<and>
   VerifyCallbackIP go_net (New documented_constants go_net ''auth'' ''secret'' [])
     ''not-an-address'' = None"
proof -
  let ?c = "New documented_constants go_net ''auth'' ''secret'' [WithCallbackIPWhitelist [''10.0.0.0/8'']]"
  let ?ip11 = "[0, 0, 0, 0, 0, 0, 0, 0, 0, 0, 255, 255, 11, 1, 2, 3] :: IP"
  have wl: "CallbackIPWhitelist ?c = [''10.0.0.0/8'']"
    by (rule CallbackIPWhitelist_New_single)
  have p0: "ParseIP go_net (strip_port go_net ''not-an-address'') = None"
    by (simp add: strip_port_def go_net_def go_net_examples)
  have p11: "ParseIP go_net (strip_port go_net ''11.1.2.3'') = Some ?ip11"
    by (simp add: strip_port_def go_net_def go_net_examples)
  have n11: "\<not> matches_literal go_net [''10.0.0.0/8''] ?ip11 \<and> \<not> matches_range go_net [''10.0.0.0/8''] ?ip11"
    by (simp add: matches_10_8 go_Contains_11)
  have "VerifyCallbackIP go_net ?c ''not-an-address'' = Some ErrInvalidIPAddress"
    using VerifyCallbackIP_errors [of documented_constants go_net "''auth''" "''secret''"
        "[WithCallbackIPWhitelist [''10.0.0.0/8'']]" "''not-an-address''"] wl p0
    by simp
  moreover have "VerifyCallbackIP go_net ?c ''11.1.2.3'' = Some ErrIPNotWhitelisted"
    using VerifyCallbackIP_errors [of documented_constants go_net "''auth''" "''secret''"
        "[WithCallbackIPWhitelist [''10.0.0.0/8'']]" "''11.1.2.3''" ?ip11] wl p11 n11
    by simp
  moreover have "VerifyCallbackIP go_net ?c ''10.1.2.3:9999'' = None"
    using VerifyCallbackIP_errors [of documented_constants go_net "''auth''" "''secret''"
        "[WithCallbackIPWhitelist [''10.0.0.0/8'']]" "''10.1.2.3:9999''"]
      IsIPWhitelisted_10_8 (3) [of documented_constants "''auth''" "''secret''"]
    by simp
  moreover have "VerifyCallbackIP go_net (New documented_constants go_net ''auth'' ''secret'' [])
      ''not-an-address'' = None"
    using VerifyCallbackIP_errors [of documented_constants go_net "''auth''" "''secret''" "[]"
        "''not-an-address''"] CallbackIPWhitelist_New_Nil [of documented_constants go_net]
    by simp
  ultimately show ?thesis
    by simp
qed

subsection \<open>A whitelist of unparseable entries\<close>

lemma nets_of_unparseable:
  "\<forall>e \<in> set ips. ParseCIDR N e = None \<and> ParseIP N e = None \<Longrightarrow> nets_of N ips = []"
  by (induction ips) (auto simp: nets_of_def)

lemma literals_of_unparseable:
  "\<forall>e \<in> set ips. ParseCIDR N e = None \<and> ParseIP N e = None \<Longrightarrow> literals_of N ips = []"
  by (induction ips) (auto simp: literals_of_def)

text \<open>
  C9. When the configured list is not empty and none of its entries parses, as a range
  or as an address, both parsed fields are empty, and yet no candidate is allowed:
  \<open>IsIPWhitelisted\<close> is false and \<open>VerifyCallbackIP\<close> returns an error for every
  candidate. The check that switches validation off reads the configured strings, not
  the parsed entries.
\<close>

theorem unparseable_whitelist_denies_all:
  "CallbackIPWhitelist (New K N authKey secretKey opts) \<noteq> [] \<and>
   (\<forall>e \<in> set (CallbackIPWhitelist (New K N authKey secretKey opts)).
       ParseCIDR N e = None \<and> ParseIP N e = None)
   \<longrightarrow> parsedIPNets (New K N authKey secretKey opts) = [] \<and>
       parsedIPs (New K N authKey secretKey opts) = [] \<and>
       \<not> IsIPWhitelisted N (New K N authKey secretKey opts) ipStr \<and>
       VerifyCallbackIP N (New K N authKey secretKey opts) ipStr \<noteq> None \<and>
       (VerifyCallbackIP N (New K N authKey secretKey opts) ipStr = Some ErrInvalidIPAddress \<or>
        VerifyCallbackIP N (New K N authKey secretKey opts) ipStr = Some ErrIPNotWhitelisted)"
proof (intro impI)
  let ?c = "New K N authKey secretKey opts"
  assume a: "CallbackIPWhitelist ?c \<noteq> [] \<and>
    (\<forall>e \<in> set (CallbackIPWhitelist ?c). ParseCIDR N e = None \<and> ParseIP N e = None)"
  have inv: "whitelist_parsed N ?c"
    by (rule New_whitelist_parsed)
  from a inv have e: "parsedIPNets ?c = []" "parsedIPs ?c = []"
    by (simp_all add: whitelist_parsed_def nets_of_unparseable literals_of_unparseable)
  then have n: "\<not> IsIPWhitelisted N ?c ipStr"
    using a by (simp add: IsIPWhitelisted_parsed)
  then have v: "VerifyCallbackIP N ?c ipStr \<noteq> None"
    using a by (simp add: VerifyCallbackIP_None_iff)
  have "VerifyCallbackIP N ?c ipStr = None \<or>
      VerifyCallbackIP N ?c ipStr = Some ErrInvalidIPAddress \<or>
      VerifyCallbackIP N ?c ipStr = Some ErrIPNotWhitelisted"
    by (simp add: VerifyCallbackIP_def Client_Error_def Let_def)
  with v have f: "VerifyCallbackIP N ?c ipStr = Some ErrInvalidIPAddress \<or>
      VerifyCallbackIP N ?c ipStr = Some ErrIPNotWhitelisted"
    by auto
  from e n v f show "parsedIPNets ?c = [] \<and> parsedIPs ?c = [] \<and> \<not> IsIPWhitelisted N ?c ipStr \<and>
       VerifyCallbackIP N ?c ipStr \<noteq> None \<and>
       (VerifyCallbackIP N ?c ipStr = Some ErrInvalidIPAddress \<or>
        VerifyCallbackIP N ?c ipStr = Some ErrIPNotWhitelisted)"
    by (intro conjI)
qed

theorem unparseable_whitelist_denies_all_witness:
  "\<not> IsIPWhitelisted go_net
     (New documented_constants go_net ''auth'' ''secret'' [WithCallbackIPWhitelist [''not-an-address'']])
     ''10.1.2.3'' \<and>
   VerifyCallbackIP go_net
     (New documented_constants go_net ''auth'' ''secret'' [WithCallbackIPWhitelist [''not-an-address'']])
     ''10.1.2.3'' = Some ErrIPNotWhitelisted \<and>
   IsIPWhitelisted go_net
     (New documented_constants go_net ''auth'' ''secret'' [WithCallbackIPWhitelist []]) ''10.1.2.3''"
proof -
  let ?c = "New documented_constants go_net ''auth'' ''secret'' [WithCallbackIPWhitelist [''not-an-address'']]"
  have wl: "CallbackIPWhitelist ?c = [''not-an-address'']"
    by (rule CallbackIPWhitelist_New_single)
  have u: "ParseCIDR go_net ''not-an-address'' = None \<and> ParseIP go_net ''not-an-address'' = None"
    by (simp add: go_net_def go_net_examples)
  have "\<not> IsIPWhitelisted go_net ?c ''10.1.2.3'' \<and> VerifyCallbackIP go_net ?c ''10.1.2.3'' \<noteq> None"
    using unparseable_whitelist_denies_all [of documented_constants go_net "''auth''" "''secret''"
        "[WithCallbackIPWhitelist [''not-an-address'']]" "''10.1.2.3''"] wl u
    by simp
  moreover have "VerifyCallbackIP go_net ?c ''10.1.2.3'' = Some ErrIPNotWhitelisted"
    by (simp add: client_defs go_net_examples)
  moreover have "IsIPWhitelisted go_net
     (New documented_constants go_net ''auth'' ''secret'' [WithCallbackIPWhitelist []]) ''10.1.2.3''"
    by (simp add: client_defs)
  ultimately show ?thesis
    by simp
qed

subsection \<open>Retry waits\<close>

lemma parseIPWhitelist_RetryWait [simp]:
  "RetryWaitMin (parseIPWhitelist N c) = RetryWaitMin c"
  "RetryWaitMax (parseIPWhitelist N c) = RetryWaitMax c"
  by (simp_all add: parseIPWhitelist_eq)

lemma apply_Option_ordered:
  assumes "RetryWaitMin c \<le> RetryWaitMax c"
    and "\<forall>min_wait max_wait. opt = WithRetryWait min_wait max_wait \<longrightarrow> min_wait \<le> max_wait"
  shows "RetryWaitMin (apply_Option N opt c) \<le> RetryWaitMax (apply_Option N opt c)"
  using assms by (cases opt) auto

text \<open>
  C8, as stated, fails: \<open>WithRetryWait\<close> stores its two arguments as they are, and
  \<open>New\<close> does not compare them. A client made with a minimum of five seconds and a
  maximum of one second has \<open>RetryWaitMin\<close> above \<open>RetryWaitMax\<close>.
\<close>

theorem New_WithRetryWait_unordered:
  "\<not> RetryWaitMin (New documented_constants go_net ''auth'' ''secret''
                     [WithRetryWait (5 * Second) (1 * Second)])
     \<le> RetryWaitMax (New documented_constants go_net ''auth'' ''secret''
                     [WithRetryWait (5 * Second) (1 * Second)])"
  by (simp add: New_def Second_def Millisecond_def)

text \<open>
  C8, amended. When the default minimum is at most the default maximum and every
  \<open>WithRetryWait\<close> among the options has a minimum that is at most its maximum, the
  client that \<open>New\<close> returns has \<open>RetryWaitMin \<le> RetryWaitMax\<close>. A last option
  \<open>WithRetryWait\<close> decides both fields, with no check of their order.
\<close>

theorem New_retry_wait_ordered:
  "(DefaultRetryWaitMin K \<le> DefaultRetryWaitMax K \<and>
    (\<forall>min_wait max_wait. WithRetryWait min_wait max_wait \<in> set opts \<longrightarrow> min_wait \<le> max_wait)
      \<longrightarrow> RetryWaitMin (New K N authKey secretKey opts) \<le> RetryWaitMax (New K N authKey secretKey opts)) \<and>
   RetryWaitMin (New K N authKey secretKey (opts @ [WithRetryWait min_wait max_wait])) = min_wait \<and>
   RetryWaitMax (New K N authKey secretKey (opts @ [WithRetryWait min_wait max_wait])) = max_wait"
proof (intro conjI impI)
  assume a: "DefaultRetryWaitMin K \<le> DefaultRetryWaitMax K \<and>
    (\<forall>min_wait max_wait. WithRetryWait min_wait max_wait \<in> set opts \<longrightarrow> min_wait \<le> max_wait)"
  show "RetryWaitMin (New K N authKey secretKey opts) \<le> RetryWaitMax (New K N authKey secretKey opts)"
    unfolding New_def
  proof (rule fold_apply_Option_invariant [where P = "\<lambda>c. RetryWaitMin c \<le> RetryWaitMax c"])
    show "RetryWaitMin
     \<lparr>AuthKey = authKey, SecretKey = secretKey, BaseURL = DefaultBaseURL K,
        Timeout = DefaultTimeout K * Second, Retries = DefaultRetries K,
        RetryWaitMin = DefaultRetryWaitMin K * Millisecond,
        RetryWaitMax = DefaultRetryWaitMax K * Millisecond,
        CallbackIPWhitelist = [], parsedIPNets = [], Debug = False, parsedIPs = [],
        digest = None\<rparr>
      \<le> RetryWaitMax
     \<lparr>AuthKey = authKey, SecretKey = secretKey, BaseURL = DefaultBaseURL K,
        Timeout = DefaultTimeout K * Second, Retries = DefaultRetries K,
        RetryWaitMin = DefaultRetryWaitMin K * Millisecond,
        RetryWaitMax = DefaultRetryWaitMax K * Millisecond,
        CallbackIPWhitelist = [], parsedIPNets = [], Debug = False, parsedIPs = [],
        digest = None\<rparr>"
      using a by (simp add: Millisecond_def)
  next
    fix opt and c :: Client
    assume "opt \<in> set opts" and "RetryWaitMin c \<le> RetryWaitMax c"
    then show "RetryWaitMin (apply_Option N opt c) \<le> RetryWaitMax (apply_Option N opt c)"
      using a by (intro apply_Option_ordered) auto
  qed
next
  show "RetryWaitMin (New K N authKey secretKey (opts @ [WithRetryWait min_wait max_wait])) = min_wait"
    by (simp add: New_def)
  show "RetryWaitMax (New K N authKey secretKey (opts @ [WithRetryWait min_wait max_wait])) = max_wait"
    by (simp add: New_def)
qed

theorem New_retry_wait_ordered_witness:
  "RetryWaitMin (New documented_constants go_net ''auth'' ''secret''
      [WithRetries 2, WithRetryWait (1 * Second) (5 * Second), WithCallbackIPWhitelist [''10.0.0.0/8'']])
   \<le> RetryWaitMax (New documented_constants go_net ''auth'' ''secret''
      [WithRetries 2, WithRetryWait (1 * Second) (5 * Second), WithCallbackIPWhitelist [''10.0.0.0/8'']]) \<and>
   RetryWaitMin (New documented_constants go_net ''auth'' ''secret'' []) = 500 * Millisecond \<and>
   RetryWaitMax (New documented_constants go_net ''auth'' ''secret'' []) = 2000 * Millisecond"
proof -
  have d: "DefaultRetryWaitMin documented_constants \<le> DefaultRetryWaitMax documented_constants"
    by (simp add: documented_constants_def)
  have o: "\<forall>min_wait max_wait.
      WithRetryWait min_wait max_wait
        \<in> set [WithRetries 2, WithRetryWait (1 * Second) (5 * Second),
                WithCallbackIPWhitelist [''10.0.0.0/8'']]
      \<longrightarrow> min_wait \<le> max_wait"
    by (simp add: Second_def Millisecond_def)
  have "RetryWaitMin (New documented_constants go_net ''auth'' ''secret''
      [WithRetries 2, WithRetryWait (1 * Second) (5 * Second), WithCallbackIPWhitelist [''10.0.0.0/8'']])
   \<le> RetryWaitMax (New documented_constants go_net ''auth'' ''secret''
      [WithRetries 2, WithRetryWait (1 * Second) (5 * Second), WithCallbackIPWhitelist [''10.0.0.0/8'']])"
    using New_retry_wait_ordered [of documented_constants
        "[WithRetries 2, WithRetryWait (1 * Second) (5 * Second), WithCallbackIPWhitelist [''10.0.0.0/8'']]"
        go_net "''auth''" "''secret''"] d o
    by blast
  moreover have "RetryWaitMin (New documented_constants go_net ''auth'' ''secret'' []) = 500 * Millisecond"
    "RetryWaitMax (New documented_constants go_net ''auth'' ''secret'' []) = 2000 * Millisecond"
    by (simp_all add: New_def documented_constants_def)
  ultimately show ?thesis
    by simp
qed

end
